theory Spec2Isabelle
  imports Complex_Main
begin

section \<open>Values: JSON, dictionaries, form data\<close>

text \<open>
  The handlers of \<^verbatim>\<open>app.py\<close> build Python dictionaries, serialise them with
  \<^verbatim>\<open>json.dumps\<close> and hand the text to the broadcaster. A dictionary keeps its keys in
  insertion order and holds each key once, so it is an association list that is only
  ever extended through \<open>dict_set\<close>. The float literals of the source (\<^verbatim>\<open>0.7\<close>) are
  kept as the numbers they are written as; the program never computes with them.
\<close>

datatype json =
    JString string
  | JFloat real
  | JArray "json list"
  | JObject "(string \<times> json) list"

type_synonym dict = "(string \<times> json) list"

text \<open>\<^verbatim>\<open>d[k] = v\<close>: an existing key keeps its position and takes the new value, a new
  key goes to the end.\<close>

fun dict_set :: "string \<Rightarrow> json \<Rightarrow> dict \<Rightarrow> dict" where
  "dict_set k v [] = [(k, v)]"
| "dict_set k v ((k', v') # d) =
     (if k' = k then (k, v) # d else (k', v') # dict_set k v d)"

text \<open>\<^verbatim>\<open>{**d, **e}\<close>: the entries of \<open>e\<close> are stored into \<open>d\<close> one by one, in order.\<close>

fun dict_unpack :: "dict \<Rightarrow> dict \<Rightarrow> dict" where
  "dict_unpack d [] = d"
| "dict_unpack d ((k, v) # e) = dict_unpack (dict_set k v d) e"

definition dict_get :: "dict \<Rightarrow> string \<Rightarrow> json option" where
  "dict_get d k = map_of d k"

text \<open>The \<^verbatim>\<open>str\<close> that \<^verbatim>\<open>json.dumps(d)\<close> returns. The library function is not part of the
  repository; its result is kept symbolic, as the text that encodes \<open>d\<close>.\<close>

datatype text_frame = Dumps json

datatype exn = TypeError | KeyError | AttributeError | FormError

text \<open>
  A request is what \<^verbatim>\<open>await request.form()\<close> does with it: it raises, or it returns the
  form fields. Every handler starts with
  \<^verbatim>\<open>try: form_data = await request.form()  except: form_data = {}\<close>.
\<close>

type_synonym form = "string \<rightharpoonup> string"
type_synonym request = "exn + form"

definition form_data_of :: "request \<Rightarrow> form" where
  "form_data_of request = (case request of Inl e \<Rightarrow> Map.empty | Inr f \<Rightarrow> f)"

text \<open>\<^verbatim>\<open>form_data.get(key, default)\<close>\<close>

definition form_get :: "form \<Rightarrow> string \<Rightarrow> string \<Rightarrow> string" where
  "form_get form_data key fallback =
     (case form_data key of None \<Rightarrow> fallback | Some v \<Rightarrow> v)"

section \<open>The mock services\<close>

datatype mock_asr = MockASR
datatype mock_llm = MockLLM
datatype mock_emotion = MockEmotionAnalysis

fun transcribe :: "mock_asr \<Rightarrow> string \<Rightarrow> string" where
  "transcribe MockASR audio_file = ''This is a mock transcription for testing purposes.''"

fun generate :: "mock_llm \<Rightarrow> string \<Rightarrow> dict" where
  "generate MockLLM transcript =
     [(''emergency_type'', JString ''Medical''),
      (''priority'', JString ''High''),
      (''location'', JString ''123 Main St''),
      (''caller_name'', JString ''John Doe''),
      (''summary'', JString ''Mock emergency call for testing purposes''),
      (''recommended_actions'',
         JArray [JString ''Dispatch ambulance'', JString ''Notify hospital''])]"

fun analyze :: "mock_emotion \<Rightarrow> string \<Rightarrow> dict" where
  "analyze MockEmotionAnalysis transcript =
     [(''emotions'',
         JObject [(''fear'', JFloat 0.7), (''distress'', JFloat 0.8),
                  (''anxiety'', JFloat 0.6), (''calm'', JFloat 0.2)]),
      (''sentiment'', JString ''negative''),
      (''urgency'', JString ''high'')]"

text \<open>The module-level service objects: a mock when the package is missing, otherwise
  \<^verbatim>\<open>None\<close>.\<close>

record services =
  asr_service :: "mock_asr option"
  llm_service :: "mock_llm option"
  emotion_service :: "mock_emotion option"

definition init_services :: "string list \<Rightarrow> services" where
  "init_services missing_optional =
     \<lparr>asr_service =
        (if ''openai-whisper'' \<in> set missing_optional then Some MockASR else None),
      llm_service =
        (if ''transformers'' \<in> set missing_optional \<or> ''torch'' \<in> set missing_optional
         then Some MockLLM else None),
      emotion_service =
        (if ''hume'' \<in> set missing_optional then Some MockEmotionAnalysis else None)\<rparr>"

section \<open>The mock broadcaster\<close>

text \<open>
  \<^verbatim>\<open>MockBroadcaster\<close> holds one set of \<^verbatim>\<open>asyncio.Queue\<close> objects. A queue object is
  its address; \<open>queues\<close> is the content of every queue object, subscribed or not, and
  \<open>allocated\<close> counts the queue objects constructed so far.
\<close>

record bus =
  subscribers :: "nat set"
  queues :: "nat \<Rightarrow> text_frame list"
  allocated :: nat

definition MockBroadcaster :: bus where
  "MockBroadcaster = \<lparr>subscribers = {}, queues = (\<lambda>q. []), allocated = 0\<rparr>"

datatype message = Dict dict | Str text_frame

fun message_str :: "message \<Rightarrow> text_frame" where
  "message_str (Dict d) = Dumps (JObject d)"
| "message_str (Str s) = s"

text \<open>
  \<^verbatim>\<open>publish(channel, message)\<close> puts the text on every queue of \<open>subscribers\<close>; the
  channel is not looked at. The queues are unbounded, so \<^verbatim>\<open>put\<close> neither waits nor
  raises, and the call returns normally.
\<close>

definition publish :: "string \<Rightarrow> message \<Rightarrow> bus \<Rightarrow> exn + bus" where
  "publish channel message b =
     Inr (b\<lparr>queues :=
            (\<lambda>queue. if queue \<in> subscribers b
                      then queues b queue @ [message_str message]
                      else queues b queue)\<rparr>)"

text \<open>
  \<^verbatim>\<open>subscribe(channel)\<close> is an async generator. \<open>subscribe_enter\<close> is its body up to the
  first \<^verbatim>\<open>yield\<close> (a new empty queue, added to the set), \<open>subscribe_next\<close> one round of
  \<^verbatim>\<open>yield await queue.get()\<close> (\<open>None\<close> while the queue is empty and the generator
  waits), \<open>subscribe_finally\<close> the \<^verbatim>\<open>finally\<close> clause, run when the stream is closed or
  an exception is thrown into it; \<^verbatim>\<open>set.remove\<close> raises \<^verbatim>\<open>KeyError\<close> for an absent
  element.
\<close>

definition subscribe_enter :: "string \<Rightarrow> bus \<Rightarrow> nat \<times> bus" where
  "subscribe_enter channel b =
     (let queue = allocated b
      in (queue, b\<lparr>subscribers := insert queue (subscribers b),
                   queues := (queues b)(queue := []),
                   allocated := Suc queue\<rparr>))"

definition subscribe_next :: "nat \<Rightarrow> bus \<Rightarrow> (text_frame \<times> bus) option" where
  "subscribe_next queue b =
     (case queues b queue of
        [] \<Rightarrow> None
      | event # rest \<Rightarrow> Some (event, b\<lparr>queues := (queues b)(queue := rest)\<rparr>))"

definition subscribe_finally :: "nat \<Rightarrow> bus \<Rightarrow> exn + bus" where
  "subscribe_finally queue b =
     (if queue \<in> subscribers b
      then Inr (b\<lparr>subscribers := subscribers b - {queue}\<rparr>)
      else Inl KeyError)"

text \<open>The wrapper class \<^verbatim>\<open>Broadcast\<close> forwards \<^verbatim>\<open>publish\<close> to its mock broadcaster.\<close>

definition Broadcast_publish :: "string \<Rightarrow> message \<Rightarrow> bus \<Rightarrow> exn + bus" where
  "Broadcast_publish channel message b = publish channel message b"

section \<open>The webhook handlers\<close>

text \<open>A handler that returns a dictionary answers with status 200 and the dictionary
  as JSON body (the framework's default for \<^verbatim>\<open>@app.post\<close> without a status code).\<close>

record http_response =
  status_code :: nat
  body :: dict

definition returned :: "dict \<Rightarrow> http_response" where
  "returned content = \<lparr>status_code = 200, body = content\<rparr>"

text \<open>\<^verbatim>\<open>try: await broadcast.publish(...)  except Exception: logger.warning(...)\<close>\<close>

definition try_publish :: "string \<Rightarrow> message \<Rightarrow> bus \<Rightarrow> bus" where
  "try_publish channel message b =
     (case Broadcast_publish channel message b of Inl e \<Rightarrow> b | Inr b' \<Rightarrow> b')"

definition handle_call :: "request \<Rightarrow> bus \<Rightarrow> http_response \<times> bus" where
  "handle_call request b =
     (let form_data = form_data_of request;
          call_sid = form_get form_data ''CallSid'' ''test-call-sid'';
          b' = try_publish ''calls''
                 (Str (Dumps (JObject
                    [(''event'', JString ''call_started''),
                     (''call_sid'', JString call_sid),
                     (''status'', JString ''in-progress'')]))) b
      in (returned
            [(''call_sid'', JString call_sid),
             (''status'', JString ''in-progress''),
             (''message'', JString ''Call received and being processed'')],
          b'))"

definition handle_recording :: "services \<Rightarrow> request \<Rightarrow> bus \<Rightarrow> http_response \<times> bus" where
  "handle_recording sv request b =
     (let form_data = form_data_of request;
          recording_sid = form_get form_data ''RecordingSid'' ''test-recording-sid'';
          call_sid = form_get form_data ''CallSid'' ''test-call-sid'';
          recording_url =
            form_get form_data ''RecordingUrl'' ''https://example.com/recording.mp3'';
          transcript =
            (case asr_service sv of
               None \<Rightarrow> ''This is a mock transcript for testing purposes.''
             | Some asr \<Rightarrow> transcribe asr recording_url);
          emotions =
            (case emotion_service sv of
               None \<Rightarrow> [(''fear'', JFloat 0.7), (''distress'', JFloat 0.8)]
             | Some emo \<Rightarrow> analyze emo transcript);
          analysis = [(''emotions'', JObject emotions), (''call_sid'', JString call_sid)];
          b' = try_publish ''transcripts''
                 (Str (Dumps (JObject
                    [(''event'', JString ''new_transcript''),
                     (''call_sid'', JString call_sid),
                     (''transcript'', JString transcript),
                     (''analysis'', JObject analysis)]))) b
      in (returned
            [(''recording_sid'', JString recording_sid),
             (''call_sid'', JString call_sid),
             (''status'', JString ''processed''),
             (''transcript'', JString transcript),
             (''analysis'', JObject analysis)],
          b'))"

definition handle_response :: "services \<Rightarrow> request \<Rightarrow> bus \<Rightarrow> http_response \<times> bus" where
  "handle_response sv request b =
     (let form_data = form_data_of request;
          call_sid = form_get form_data ''CallSid'' ''test-call-sid'';
          transcript = form_get form_data ''Transcript'' ''Mock transcript'';
          triage_result =
            (case llm_service sv of
               None \<Rightarrow>
                 [(''emergency_type'', JString ''Medical''),
                  (''priority'', JString ''High''),
                  (''location'', JString ''123 Main St''),
                  (''caller_name'', JString ''John Doe''),
                  (''summary'', JString ''Mock emergency call for testing purposes''),
                  (''recommended_actions'',
                     JArray [JString ''Dispatch ambulance'', JString ''Notify hospital''])]
             | Some llm \<Rightarrow> generate llm transcript);
          emotions =
            (case emotion_service sv of
               None \<Rightarrow> [(''fear'', JFloat 0.7), (''distress'', JFloat 0.8)]
             | Some emo \<Rightarrow> analyze emo transcript);
          response =
            dict_set ''emotions'' (JObject emotions)
              (dict_unpack (dict_set ''call_sid'' (JString call_sid) []) triage_result);
          b' = try_publish ''responses''
                 (Str (Dumps (JObject
                    (dict_set ''emotions'' (JObject emotions)
                       (dict_unpack
                          (dict_set ''call_sid'' (JString call_sid)
                             (dict_set ''event'' (JString ''new_response'') []))
                          triage_result))))) b
      in (returned response, b'))"

section \<open>The dashboard endpoint\<close>

text \<open>
  \<^verbatim>\<open>Broadcast.subscribe\<close> is declared \<^verbatim>\<open>async def\<close> with the body
  \<^verbatim>\<open>return await self.broadcaster.subscribe(channel)\<close>. Calling it runs none of that
  body: the call returns a coroutine object. \<^verbatim>\<open>websocket_endpoint\<close> never awaits that
  object; it hands it to \<^verbatim>\<open>async with\<close>, which asks the object's type for
  \<^verbatim>\<open>__aenter__\<close> and \<^verbatim>\<open>__aexit__\<close>. A coroutine has neither, so the statement raises
  (\<^verbatim>\<open>TypeError\<close>; \<^verbatim>\<open>AttributeError\<close> before Python 3.11), and the handler's
  \<^verbatim>\<open>except Exception\<close> logs a warning and returns. \<open>async_with\<close> gives what the
  statement binds to \<^verbatim>\<open>subscriber\<close>, as the events that iterating it would yield.
\<close>

datatype pyobj = Coroutine string

definition Broadcast_subscribe :: "string \<Rightarrow> pyobj" where
  "Broadcast_subscribe channel = Coroutine ''Broadcast.subscribe''"

fun async_with :: "pyobj \<Rightarrow> exn + text_frame list" where
  "async_with (Coroutine name) = Inl TypeError"

record websocket =
  accepted :: bool
  sent :: "text_frame list"

text \<open>One block
  \<^verbatim>\<open>async with broadcast.subscribe(channel=c) as subscriber:
      async for event in subscriber: await websocket.send_text(event)\<close>\<close>

definition forward :: "string \<Rightarrow> websocket \<Rightarrow> exn + websocket" where
  "forward channel ws =
     (case async_with (Broadcast_subscribe channel) of
        Inl e \<Rightarrow> Inl e
      | Inr events \<Rightarrow> Inr (ws\<lparr>sent := sent ws @ events\<rparr>))"

text \<open>The endpoint: accept, then the three blocks one after the other inside one
  \<^verbatim>\<open>try\<close>. The second component is the list of exceptions caught and logged.\<close>

definition websocket_endpoint :: "websocket \<Rightarrow> websocket \<times> exn list" where
  "websocket_endpoint websocket =
     (let ws = websocket\<lparr>accepted := True\<rparr>
      in case forward ''calls'' ws of
           Inl e \<Rightarrow> (ws, [e])
         | Inr ws1 \<Rightarrow>
             (case forward ''transcripts'' ws1 of
                Inl e \<Rightarrow> (ws1, [e])
              | Inr ws2 \<Rightarrow>
                  (case forward ''responses'' ws2 of
                     Inl e \<Rightarrow> (ws2, [e])
                   | Inr ws3 \<Rightarrow> (ws3, []))))"

section \<open>Runs of the program\<close>

text \<open>A sequence of \<^verbatim>\<open>broadcast.publish\<close> calls, each inside the handlers'
  \<^verbatim>\<open>try\<close>.\<close>

fun publish_all :: "(string \<times> message) list \<Rightarrow> bus \<Rightarrow> bus" where
  "publish_all [] b = b"
| "publish_all ((channel, message) # rest) b = publish_all rest (try_publish channel message b)"

text \<open>What the consumer of a subscription stream reads in \<open>n\<close> rounds of the
  generator's loop, stopping early where the generator would wait.\<close>

fun receive :: "nat \<Rightarrow> nat \<Rightarrow> bus \<Rightarrow> text_frame list" where
  "receive 0 queue b = []"
| "receive (Suc n) queue b =
     (case subscribe_next queue b of
        None \<Rightarrow> []
      | Some (event, b') \<Rightarrow> event # receive n queue b')"

text \<open>A subscriber reading a field of a frame it received.\<close>

fun frame_field :: "text_frame \<Rightarrow> string \<Rightarrow> json option" where
  "frame_field (Dumps (JObject d)) k = dict_get d k"
| "frame_field (Dumps v) k = None"

text \<open>
  The event loop, for the recording webhook. \<^verbatim>\<open>handle_recording\<close> gives up control
  once, at \<^verbatim>\<open>await request.form()\<close>; the rest of its body runs without a further wait
  (the mock's queues never block). \<open>Arrive\<close> starts a run, which then waits for its
  form; \<open>Resume i\<close> lets the \<open>i\<close>-th waiting run finish. Nothing else is shared between
  two runs than the broadcaster.
\<close>

record server =
  broadcast :: bus
  in_flight :: "request list"
  completed :: "http_response list"

datatype action = Arrive request | Resume nat

fun step :: "services \<Rightarrow> action \<Rightarrow> server \<Rightarrow> server" where
  "step sv (Arrive request) s = s\<lparr>in_flight := in_flight s @ [request]\<rparr>"
| "step sv (Resume i) s =
     (if i < length (in_flight s)
      then s\<lparr>broadcast := snd (handle_recording sv (in_flight s ! i) (broadcast s)),
             in_flight := take i (in_flight s) @ drop (Suc i) (in_flight s),
             completed :=
               completed s @ [fst (handle_recording sv (in_flight s ! i) (broadcast s))]\<rparr>
      else s)"

fun run :: "services \<Rightarrow> action list \<Rightarrow> server \<Rightarrow> server" where
  "run sv [] s = s"
| "run sv (a # as) s = run sv as (step sv a s)"

definition call_id_of :: "request \<Rightarrow> string" where
  "call_id_of request = form_get (form_data_of request) ''CallSid'' ''test-call-sid''"

definition active_runs :: "string \<Rightarrow> server \<Rightarrow> nat" where
  "active_runs call_id s = length (filter (\<lambda>request. call_id_of request = call_id) (in_flight s))"

section \<open>Facts about the model\<close>

lemma generate_any:
  "generate llm transcript =
     [(''emergency_type'', JString ''Medical''),
      (''priority'', JString ''High''),
      (''location'', JString ''123 Main St''),
      (''caller_name'', JString ''John Doe''),
      (''summary'', JString ''Mock emergency call for testing purposes''),
      (''recommended_actions'',
         JArray [JString ''Dispatch ambulance'', JString ''Notify hospital''])]"
  by (cases llm) simp

lemma analyze_any:
  "analyze emo transcript =
     [(''emotions'',
         JObject [(''fear'', JFloat 0.7), (''distress'', JFloat 0.8),
                  (''anxiety'', JFloat 0.6), (''calm'', JFloat 0.2)]),
      (''sentiment'', JString ''negative''),
      (''urgency'', JString ''high'')]"
  by (cases emo) simp

lemma transcribe_any:
  "transcribe asr audio_file = ''This is a mock transcription for testing purposes.''"
  by (cases asr) simp

lemma try_publish_queues:
  "queues (try_publish channel message b) queue =
     (if queue \<in> subscribers b then queues b queue @ [message_str message]
      else queues b queue)"
  by (simp add: try_publish_def Broadcast_publish_def publish_def)

lemma try_publish_subscribers:
  "subscribers (try_publish channel message b) = subscribers b"
  by (simp add: try_publish_def Broadcast_publish_def publish_def)

lemma publish_all_subscribers: "subscribers (publish_all ps b) = subscribers b"
  by (induction ps arbitrary: b) (auto simp: try_publish_subscribers)

lemma publish_all_queues:
  "queues (publish_all ps b) queue =
     (if queue \<in> subscribers b
      then queues b queue @ map (\<lambda>p. message_str (snd p)) ps
      else queues b queue)"
  by (induction ps arbitrary: b) (auto simp: try_publish_subscribers try_publish_queues)

text \<open>Reading as many rounds as the queue holds events returns the queue's content,
  oldest first.\<close>

lemma receive_all: "receive (length (queues b queue)) queue b = queues b queue"
proof (induction "queues b queue" arbitrary: b)
  case Nil
  then show ?case by simp
next
  case (Cons e es)
  have "queues b queue = e # es"
    using Cons.hyps(2) by simp
  moreover have "es = queues (b\<lparr>queues := (queues b)(queue := es)\<rparr>) queue"
    by simp
  ultimately show ?case
    using Cons.hyps(1)[of "b\<lparr>queues := (queues b)(queue := es)\<rparr>"]
    by (simp add: subscribe_next_def)
qed

text \<open>What each handler returns and publishes, with the service calls evaluated.\<close>

lemma handle_call_bus:
  "snd (handle_call request b) =
     try_publish ''calls''
       (Str (Dumps (JObject
          [(''event'', JString ''call_started''),
           (''call_sid'', JString (form_get (form_data_of request) ''CallSid'' ''test-call-sid'')),
           (''status'', JString ''in-progress'')]))) b"
  by (simp add: handle_call_def Let_def)

lemma handle_recording_bus:
  "snd (handle_recording sv request b) =
     try_publish ''transcripts''
       (Str (Dumps (JObject
          [(''event'', JString ''new_transcript''),
           (''call_sid'', JString (form_get (form_data_of request) ''CallSid'' ''test-call-sid'')),
           (''transcript'', JString
              (case asr_service sv of
                 None \<Rightarrow> ''This is a mock transcript for testing purposes.''
               | Some asr \<Rightarrow> ''This is a mock transcription for testing purposes.'')),
           (''analysis'', JObject
              [(''emotions'', JObject
                  (case emotion_service sv of
                     None \<Rightarrow> [(''fear'', JFloat 0.7), (''distress'', JFloat 0.8)]
                   | Some emo \<Rightarrow> analyze MockEmotionAnalysis [])),
               (''call_sid'', JString (form_get (form_data_of request) ''CallSid'' ''test-call-sid''))])]))) b"
  by (cases "asr_service sv"; cases "emotion_service sv")
     (simp_all add: handle_recording_def Let_def transcribe_any analyze_any)

lemma handle_recording_response:
  "fst (handle_recording sv request b) =
     returned
       [(''recording_sid'', JString (form_get (form_data_of request) ''RecordingSid'' ''test-recording-sid'')),
        (''call_sid'', JString (form_get (form_data_of request) ''CallSid'' ''test-call-sid'')),
        (''status'', JString ''processed''),
        (''transcript'', JString
              (case asr_service sv of
                 None \<Rightarrow> ''This is a mock transcript for testing purposes.''
               | Some asr \<Rightarrow> ''This is a mock transcription for testing purposes.'')),
        (''analysis'', JObject
              [(''emotions'', JObject
                  (case emotion_service sv of
                     None \<Rightarrow> [(''fear'', JFloat 0.7), (''distress'', JFloat 0.8)]
                   | Some emo \<Rightarrow> analyze MockEmotionAnalysis [])),
               (''call_sid'', JString (form_get (form_data_of request) ''CallSid'' ''test-call-sid''))])]"
  by (cases "asr_service sv"; cases "emotion_service sv")
     (simp_all add: handle_recording_def Let_def transcribe_any analyze_any)

lemma handle_response_response:
  "fst (handle_response sv request b) =
     returned
       [(''call_sid'', JString (form_get (form_data_of request) ''CallSid'' ''test-call-sid'')),
        (''emergency_type'', JString ''Medical''),
        (''priority'', JString ''High''),
        (''location'', JString ''123 Main St''),
        (''caller_name'', JString ''John Doe''),
        (''summary'', JString ''Mock emergency call for testing purposes''),
        (''recommended_actions'',
           JArray [JString ''Dispatch ambulance'', JString ''Notify hospital'']),
        (''emotions'', JObject
                  (case emotion_service sv of
                     None \<Rightarrow> [(''fear'', JFloat 0.7), (''distress'', JFloat 0.8)]
                   | Some emo \<Rightarrow> analyze MockEmotionAnalysis []))]"
  by (cases "llm_service sv"; cases "emotion_service sv")
     (simp_all add: handle_response_def Let_def generate_any analyze_any)

lemma handle_response_bus:
  "snd (handle_response sv request b) =
     try_publish ''responses''
       (Str (Dumps (JObject
         [(''event'', JString ''new_response''),
          (''call_sid'', JString (form_get (form_data_of request) ''CallSid'' ''test-call-sid'')),
          (''emergency_type'', JString ''Medical''),
          (''priority'', JString ''High''),
          (''location'', JString ''123 Main St''),
          (''caller_name'', JString ''John Doe''),
          (''summary'', JString ''Mock emergency call for testing purposes''),
          (''recommended_actions'',
             JArray [JString ''Dispatch ambulance'', JString ''Notify hospital'']),
          (''emotions'', JObject
                  (case emotion_service sv of
                     None \<Rightarrow> [(''fear'', JFloat 0.7), (''distress'', JFloat 0.8)]
                   | Some emo \<Rightarrow> analyze MockEmotionAnalysis []))]))) b"
  by (cases "llm_service sv"; cases "emotion_service sv")
     (simp_all add: handle_response_def Let_def generate_any analyze_any)


lemma handle_call_response:
  "fst (handle_call request b) =
     returned
       [(''call_sid'', JString (form_get (form_data_of request) ''CallSid'' ''test-call-sid'')),
        (''status'', JString ''in-progress''),
        (''message'', JString ''Call received and being processed'')]"
  by (simp add: handle_call_def Let_def)

section \<open>Subscriptions\<close>

text \<open>
  Claim C3, as amended. A subscription begun by \<^verbatim>\<open>subscribe(channel)\<close> receives every
  message published after it began, on whatever channel it was published, in the order
  of publication, and nothing that was published before it began: the mock keeps one
  subscriber set and never looks at the channel.
\<close>

theorem subscriber_receives_all_later_messages:
  "(let (queue, b1) = subscribe_enter channel (publish_all earlier b)
    in queues (publish_all later b1) queue = map (\<lambda>p. message_str (snd p)) later
     \<and> receive (length later) queue (publish_all later b1)
         = map (\<lambda>p. message_str (snd p)) later)"
proof -
  obtain queue b1 where e: "subscribe_enter channel (publish_all earlier b) = (queue, b1)"
    by (cases "subscribe_enter channel (publish_all earlier b)")
  have q: "queue \<in> subscribers b1" and z: "queues b1 queue = []"
    using e by (auto simp: subscribe_enter_def Let_def)
  have 1: "queues (publish_all later b1) queue = map (\<lambda>p. message_str (snd p)) later"
    using q z by (simp add: publish_all_queues)
  have 2: "receive (length later) queue (publish_all later b1)
             = map (\<lambda>p. message_str (snd p)) later"
    using receive_all[of "publish_all later b1" queue] 1 by simp
  show ?thesis
    using e 1 2 by simp
qed

text \<open>
  Claim C3 as the specification states it fails: a subscriber of channel
  \<^verbatim>\<open>calls\<close> receives a message published to channel \<^verbatim>\<open>transcripts\<close>.
\<close>

theorem subscriber_receives_other_channel:
  "(let (queue, b) = subscribe_enter ''calls'' MockBroadcaster
    in queues (try_publish ''transcripts'' (Str (Dumps (JString ''t''))) b) queue)
   = [Dumps (JString ''t'')]"
  by (simp add: subscribe_enter_def MockBroadcaster_def try_publish_queues Let_def)

text \<open>
  Claim C7. When a subscription stream ends, its \<^verbatim>\<open>finally\<close> clause runs without an
  error and takes the stream's queue out of the broadcaster's one subscriber set (the
  set behind every channel). Every later publish returns normally and leaves that queue
  as it was: nothing more is delivered to the closed stream.
\<close>

theorem closed_subscription_is_removed:
  "(let (queue, b1) = subscribe_enter channel b;
        b2 = publish_all during b1
    in \<exists>b3. subscribe_finally queue b2 = Inr b3
          \<and> queue \<notin> subscribers b3
          \<and> queue \<notin> subscribers (publish_all after b3)
          \<and> queues (publish_all after b3) queue = queues b2 queue
          \<and> (\<exists>b4. publish channel' message (publish_all after b3) = Inr b4
                 \<and> queues b4 queue = queues b2 queue))"
proof -
  obtain queue b1 where e: "subscribe_enter channel b = (queue, b1)"
    by (cases "subscribe_enter channel b")
  have q: "queue \<in> subscribers b1"
    using e by (auto simp: subscribe_enter_def Let_def)
  define b2 where "b2 = publish_all during b1"
  have q2: "queue \<in> subscribers b2"
    using q by (simp add: b2_def publish_all_subscribers)
  define b3 where "b3 = b2\<lparr>subscribers := subscribers b2 - {queue}\<rparr>"
  have f: "subscribe_finally queue b2 = Inr b3"
    using q2 by (simp add: subscribe_finally_def b3_def)
  have n3: "queue \<notin> subscribers b3"
    by (simp add: b3_def)
  have n4: "queue \<notin> subscribers (publish_all after b3)"
    using n3 by (simp add: publish_all_subscribers)
  have k: "queues (publish_all after b3) queue = queues b2 queue"
    using n3 by (simp add: publish_all_queues) (simp add: b3_def)
  have p: "\<exists>b4. publish channel' message (publish_all after b3) = Inr b4
                 \<and> queues b4 queue = queues b2 queue"
    using n4 k by (simp add: publish_def)
  show ?thesis
    using e f n3 n4 k p by (simp add: b2_def Let_def)
qed

section \<open>Ordering of events\<close>

text \<open>
  Claim C1, as amended. No published event carries a \<^verbatim>\<open>sequence_number\<close>: the
  program assigns none. What a subscriber can rely on is the order of delivery: the
  events it reads from its queue are the ones its queue held, followed by every event
  published since, in the order of publication, each once and none left out; the same
  holds for the events of any one \<^verbatim>\<open>call_sid\<close> among them.
\<close>

theorem events_arrive_in_publication_order:
  "queue \<in> subscribers b \<Longrightarrow>
     receive (length (queues b queue) + length ps) queue (publish_all ps b)
       = queues b queue @ map (\<lambda>p. message_str (snd p)) ps
   \<and> filter (\<lambda>f. frame_field f ''call_sid'' = Some (JString call_id))
        (receive (length (queues b queue) + length ps) queue (publish_all ps b))
       = filter (\<lambda>f. frame_field f ''call_sid'' = Some (JString call_id)) (queues b queue)
         @ filter (\<lambda>f. frame_field f ''call_sid'' = Some (JString call_id))
             (map (\<lambda>p. message_str (snd p)) ps)
   \<and> (\<exists>d. dict_get d ''sequence_number'' = None
        \<and> (\<forall>b. snd (handle_call request b) = try_publish ''calls'' (Str (Dumps (JObject d))) b))
   \<and> (\<exists>d. dict_get d ''sequence_number'' = None
        \<and> (\<forall>b. snd (handle_recording sv request b)
                  = try_publish ''transcripts'' (Str (Dumps (JObject d))) b))
   \<and> (\<exists>d. dict_get d ''sequence_number'' = None
        \<and> (\<forall>b. snd (handle_response sv request b)
                  = try_publish ''responses'' (Str (Dumps (JObject d))) b))"
proof (intro conjI)
  assume q: "queue \<in> subscribers b"
  have len: "length (queues (publish_all ps b) queue) = length (queues b queue) + length ps"
    using q by (simp add: publish_all_queues)
  show r: "receive (length (queues b queue) + length ps) queue (publish_all ps b)
       = queues b queue @ map (\<lambda>p. message_str (snd p)) ps"
    using receive_all[of "publish_all ps b" queue] q len by (simp add: publish_all_queues)
  show "filter (\<lambda>f. frame_field f ''call_sid'' = Some (JString call_id))
        (receive (length (queues b queue) + length ps) queue (publish_all ps b))
       = filter (\<lambda>f. frame_field f ''call_sid'' = Some (JString call_id)) (queues b queue)
         @ filter (\<lambda>f. frame_field f ''call_sid'' = Some (JString call_id))
             (map (\<lambda>p. message_str (snd p)) ps)"
    by (simp only: r filter_append)
next
  show "\<exists>d. dict_get d ''sequence_number'' = None
        \<and> (\<forall>b. snd (handle_call request b) = try_publish ''calls'' (Str (Dumps (JObject d))) b)"
    by (rule exI, rule conjI[OF _ allI[OF handle_call_bus]]) (simp add: dict_get_def)
  show "\<exists>d. dict_get d ''sequence_number'' = None
        \<and> (\<forall>b. snd (handle_recording sv request b)
                  = try_publish ''transcripts'' (Str (Dumps (JObject d))) b)"
    by (rule exI, rule conjI[OF _ allI[OF handle_recording_bus]]) (simp add: dict_get_def)
  show "\<exists>d. dict_get d ''sequence_number'' = None
        \<and> (\<forall>b. snd (handle_response sv request b)
                  = try_publish ''responses'' (Str (Dumps (JObject d))) b)"
    by (rule exI, rule conjI[OF _ allI[OF handle_response_bus]]) (simp add: dict_get_def)
qed

text \<open>
  Claim C1 as the specification states it fails: the event that the call webhook
  publishes for call \<^verbatim>\<open>c1\<close> has the fields \<^verbatim>\<open>event\<close>, \<^verbatim>\<open>call_sid\<close> and \<^verbatim>\<open>status\<close>, and no
  \<^verbatim>\<open>sequence_number\<close>.
\<close>

theorem call_event_has_no_sequence_number:
  "(let (queue, b) = subscribe_enter ''calls'' MockBroadcaster
    in receive 1 queue (snd (handle_call (Inr [''CallSid'' \<mapsto> ''c1'']) b)))
     = [Dumps (JObject [(''event'', JString ''call_started''),
                        (''call_sid'', JString ''c1''),
                        (''status'', JString ''in-progress'')])]
   \<and> frame_field
        (Dumps (JObject [(''event'', JString ''call_started''),
                         (''call_sid'', JString ''c1''),
                         (''status'', JString ''in-progress'')])) ''sequence_number'' = None"
  by (simp add: handle_call_bus subscribe_enter_def MockBroadcaster_def
      try_publish_queues subscribe_next_def dict_get_def Let_def form_get_def form_data_of_def)

text \<open>
  The ordering theorem at a concrete subscriber and two publications.
\<close>

theorem events_arrive_in_publication_order_witness:
  "0 \<in> subscribers (snd (subscribe_enter ''calls'' MockBroadcaster))
   \<and> receive 2 0
       (publish_all [(''calls'', Str (Dumps (JString ''a''))),
                     (''responses'', Str (Dumps (JString ''b'')))]
          (snd (subscribe_enter ''calls'' MockBroadcaster)))
     = [Dumps (JString ''a''), Dumps (JString ''b'')]"
  using events_arrive_in_publication_order[of 0 "snd (subscribe_enter ''calls'' MockBroadcaster)"
          "[(''calls'', Str (Dumps (JString ''a''))), (''responses'', Str (Dumps (JString ''b'')))]"]
  by (simp add: subscribe_enter_def MockBroadcaster_def Let_def subscribe_next_def
      try_publish_queues try_publish_subscribers numeral_2_eq_2)

section \<open>Runs of the recording webhook\<close>

text \<open>
  Claim C2, as amended. The program keeps no registry of runs and no record per call.
  A recording request that arrives is always taken on as one more run in flight for its
  call, whatever is in flight already; a run that resumes finishes with status 200 and
  \<^verbatim>\<open>"status": "processed"\<close>, its response depends on its own request only, it publishes
  its own event, and every other run stays in flight: none is rejected and none is
  cancelled.
\<close>

theorem recording_runs_are_independent:
  "i < length (in_flight s) \<Longrightarrow>
     (let s' = step sv (Resume i) s
      in completed s' = completed s @ [fst (handle_recording sv (in_flight s ! i) MockBroadcaster)]
       \<and> status_code (last (completed s')) = 200
       \<and> dict_get (body (last (completed s'))) ''status'' = Some (JString ''processed'')
       \<and> in_flight s' = take i (in_flight s) @ drop (Suc i) (in_flight s)
       \<and> broadcast s' = snd (handle_recording sv (in_flight s ! i) (broadcast s)))
   \<and> active_runs (call_id_of request) (step sv (Arrive request) s)
       = Suc (active_runs (call_id_of request) s)
   \<and> completed (step sv (Arrive request) s) = completed s
   \<and> broadcast (step sv (Arrive request) s) = broadcast s"
  by (simp add: Let_def active_runs_def handle_recording_response returned_def dict_get_def)

text \<open>
  Claim C2 as the specification states it fails: two runs for call \<^verbatim>\<open>c1\<close> are in
  flight at the same time, both complete with \<^verbatim>\<open>processed\<close>, and a subscriber receives
  the events of both.
\<close>

theorem two_runs_in_flight_for_one_call:
  "active_runs ''c1''
     (run (init_services [''openai-whisper'', ''hume''])
        [Arrive (Inr [''CallSid'' \<mapsto> ''c1'', ''RecordingSid'' \<mapsto> ''A'']),
         Arrive (Inr [''CallSid'' \<mapsto> ''c1'', ''RecordingSid'' \<mapsto> ''B''])]
        \<lparr>broadcast = snd (subscribe_enter ''transcripts'' MockBroadcaster),
         in_flight = [], completed = []\<rparr>) = 2
   \<and> map (\<lambda>r. (status_code r, dict_get (body r) ''status'', dict_get (body r) ''recording_sid''))
       (completed
         (run (init_services [''openai-whisper'', ''hume''])
            [Arrive (Inr [''CallSid'' \<mapsto> ''c1'', ''RecordingSid'' \<mapsto> ''A'']),
             Arrive (Inr [''CallSid'' \<mapsto> ''c1'', ''RecordingSid'' \<mapsto> ''B'']),
             Resume 0, Resume 0]
            \<lparr>broadcast = snd (subscribe_enter ''transcripts'' MockBroadcaster),
             in_flight = [], completed = []\<rparr>))
     = [(200, Some (JString ''processed''), Some (JString ''A'')),
        (200, Some (JString ''processed''), Some (JString ''B''))]
   \<and> map (\<lambda>f. frame_field f ''call_sid'')
       (queues (broadcast
         (run (init_services [''openai-whisper'', ''hume''])
            [Arrive (Inr [''CallSid'' \<mapsto> ''c1'', ''RecordingSid'' \<mapsto> ''A'']),
             Arrive (Inr [''CallSid'' \<mapsto> ''c1'', ''RecordingSid'' \<mapsto> ''B'']),
             Resume 0, Resume 0]
            \<lparr>broadcast = snd (subscribe_enter ''transcripts'' MockBroadcaster),
             in_flight = [], completed = []\<rparr>)) 0)
     = [Some (JString ''c1''), Some (JString ''c1'')]"
  by (simp add: active_runs_def call_id_of_def form_get_def form_data_of_def
      handle_recording_response handle_recording_bus returned_def dict_get_def
      try_publish_queues try_publish_subscribers subscribe_enter_def MockBroadcaster_def Let_def)

text \<open>
  The theorem on runs at a server with two runs in flight for one call.
\<close>

theorem recording_runs_are_independent_witness:
  "0 < length (in_flight
        \<lparr>broadcast = MockBroadcaster,
         in_flight = [Inr [''CallSid'' \<mapsto> ''c1''], Inr [''CallSid'' \<mapsto> ''c1'']],
         completed = []\<rparr>)
   \<and> in_flight (step (init_services [''openai-whisper'']) (Resume 0)
        \<lparr>broadcast = MockBroadcaster,
         in_flight = [Inr [''CallSid'' \<mapsto> ''c1''], Inr [''CallSid'' \<mapsto> ''c1'']],
         completed = []\<rparr>) = [Inr [''CallSid'' \<mapsto> ''c1'']]
   \<and> map status_code (completed (step (init_services [''openai-whisper'']) (Resume 0)
        \<lparr>broadcast = MockBroadcaster,
         in_flight = [Inr [''CallSid'' \<mapsto> ''c1''], Inr [''CallSid'' \<mapsto> ''c1'']],
         completed = []\<rparr>)) = [200]"
  using recording_runs_are_independent[of 0 "\<lparr>broadcast = MockBroadcaster,
         in_flight = [Inr [''CallSid'' \<mapsto> ''c1''], Inr [''CallSid'' \<mapsto> ''c1'']],
         completed = []\<rparr>" "init_services [''openai-whisper'']"]
  by (simp add: Let_def handle_recording_response returned_def)

section \<open>The dashboard connection\<close>

text \<open>
  Claim C4 does not hold of the code. With the mock broadcaster in force, a connection
  to \<^verbatim>\<open>/ws\<close> is accepted, the first \<^verbatim>\<open>async with\<close> raises, the exception is logged, and
  the endpoint returns: no frame is sent to the connection, and the broadcaster has no
  subscriber, so an event published afterwards reaches nobody.
\<close>

theorem websocket_endpoint_forwards_nothing:
  "websocket_endpoint ws = (ws\<lparr>accepted := True\<rparr>, [TypeError])
   \<and> sent (fst (websocket_endpoint ws)) = sent ws
   \<and> subscribers (snd (handle_call request MockBroadcaster)) = {}"
  by (simp add: websocket_endpoint_def forward_def Broadcast_subscribe_def Let_def
      handle_call_bus try_publish_subscribers)
     (simp add: MockBroadcaster_def)

section \<open>Missing form fields\<close>

text \<open>
  Claim C5, as amended. The three webhook handlers always answer with status 200. A
  request without \<^verbatim>\<open>CallSid\<close> (also one whose form cannot be read) is handled under the
  default call id \<^verbatim>\<open>test-call-sid\<close>; no handler reports malformed input.
\<close>

theorem missing_fields_take_defaults:
  "status_code (fst (handle_call request b)) = 200
   \<and> status_code (fst (handle_recording sv request b)) = 200
   \<and> status_code (fst (handle_response sv request b)) = 200
   \<and> (form_data_of request ''CallSid'' = None \<longrightarrow>
        dict_get (body (fst (handle_call request b))) ''call_sid''
          = Some (JString ''test-call-sid'')
      \<and> dict_get (body (fst (handle_recording sv request b))) ''call_sid''
          = Some (JString ''test-call-sid'')
      \<and> dict_get (body (fst (handle_response sv request b))) ''call_sid''
          = Some (JString ''test-call-sid''))"
  by (simp add: handle_call_response handle_recording_response handle_response_response
      returned_def dict_get_def form_get_def)

text \<open>
  Claim C5 as the specification states it fails: the call webhook answers an empty
  form with status 200 and the default call id.
\<close>

theorem call_without_CallSid_returns_200:
  "status_code (fst (handle_call (Inr Map.empty) MockBroadcaster)) = 200
   \<and> body (fst (handle_call (Inr Map.empty) MockBroadcaster)) =
       [(''call_sid'', JString ''test-call-sid''),
        (''status'', JString ''in-progress''),
        (''message'', JString ''Call received and being processed'')]"
  by (simp add: handle_call_response form_data_of_def form_get_def returned_def)

text \<open>
  The theorem on missing fields at a request whose form cannot be read.
\<close>

theorem missing_fields_take_defaults_witness:
  "form_data_of (Inl FormError) ''CallSid'' = None
   \<and> status_code (fst (handle_recording
        (init_services [''openai-whisper'']) (Inl FormError) MockBroadcaster)) = 200
   \<and> dict_get (body (fst (handle_recording
        (init_services [''openai-whisper'']) (Inl FormError) MockBroadcaster))) ''call_sid''
        = Some (JString ''test-call-sid'')"
  using missing_fields_take_defaults[of "Inl FormError" MockBroadcaster "init_services [''openai-whisper'']"]
  by (simp add: form_data_of_def)

section \<open>Event kinds\<close>

text \<open>
  Claim C6, as amended. The event kinds of the program are \<^verbatim>\<open>call_started\<close>,
  \<^verbatim>\<open>new_transcript\<close> and \<^verbatim>\<open>new_response\<close>: the call webhook publishes \<^verbatim>\<open>call_started\<close>
  on channel \<^verbatim>\<open>calls\<close>, the recording webhook \<^verbatim>\<open>new_transcript\<close> on channel
  \<^verbatim>\<open>transcripts\<close>, the response webhook \<^verbatim>\<open>new_response\<close> on channel \<^verbatim>\<open>responses\<close>.
\<close>

theorem published_event_kinds:
  "(\<exists>d. dict_get d ''event'' = Some (JString ''call_started'')
        \<and> (\<forall>b. snd (handle_call request b) = try_publish ''calls'' (Str (Dumps (JObject d))) b))
   \<and> (\<exists>d. dict_get d ''event'' = Some (JString ''new_transcript'')
        \<and> (\<forall>b. snd (handle_recording sv request b) = try_publish ''transcripts'' (Str (Dumps (JObject d))) b))
   \<and> (\<exists>d. dict_get d ''event'' = Some (JString ''new_response'')
        \<and> (\<forall>b. snd (handle_response sv request b) = try_publish ''responses'' (Str (Dumps (JObject d))) b))"
proof (intro conjI)
  show "\<exists>d. dict_get d ''event'' = Some (JString ''call_started'')
        \<and> (\<forall>b. snd (handle_call request b) = try_publish ''calls'' (Str (Dumps (JObject d))) b)"
    by (rule exI, rule conjI[OF _ allI[OF handle_call_bus]]) (simp add: dict_get_def)
  show "\<exists>d. dict_get d ''event'' = Some (JString ''new_transcript'')
        \<and> (\<forall>b. snd (handle_recording sv request b) = try_publish ''transcripts'' (Str (Dumps (JObject d))) b)"
    by (rule exI, rule conjI[OF _ allI[OF handle_recording_bus]]) (simp add: dict_get_def)
  show "\<exists>d. dict_get d ''event'' = Some (JString ''new_response'')
        \<and> (\<forall>b. snd (handle_response sv request b) = try_publish ''responses'' (Str (Dumps (JObject d))) b)"
    by (rule exI, rule conjI[OF _ allI[OF handle_response_bus]]) (simp add: dict_get_def)
qed

text \<open>
  Claim C6 as the specification states it fails: the event of the recording webhook
  has kind \<^verbatim>\<open>new_transcript\<close>, which is not one of the five kinds of the specification.
\<close>

theorem recording_publishes_new_transcript:
  "(let (queue, b) = subscribe_enter ''transcripts'' MockBroadcaster
    in map (\<lambda>f. frame_field f ''event'')
         (receive 1 queue
            (snd (handle_recording
                    (init_services [''python-dotenv'', ''openai-whisper'', ''hume'', ''torch''])
                    (Inr [''CallSid'' \<mapsto> ''c1'', ''RecordingSid'' \<mapsto> ''r1'',
                          ''RecordingUrl'' \<mapsto> ''http://x/r1.mp3'']) b))))
     = [Some (JString ''new_transcript'')]
   \<and> ''new_transcript'' \<notin> {''call_started'', ''transcript_ready'', ''triage_ready'',
                              ''emotion_ready'', ''pipeline_failed''}"
  by (simp add: handle_recording_bus init_services_def subscribe_enter_def MockBroadcaster_def
      try_publish_queues subscribe_next_def dict_get_def Let_def)

section \<open>Replay of the recording webhook\<close>



section \<open>The response webhook\<close>

text \<open>
  Claim C9. The object published on channel \<^verbatim>\<open>responses\<close> is the body returned to
  the caller with the one field \<^verbatim>\<open>event\<close> = \<^verbatim>\<open>new_response\<close> put in front; the body has no
  field \<^verbatim>\<open>event\<close> of its own.
\<close>

theorem response_event_is_body_plus_event:
  "snd (handle_response sv request b) =
     try_publish ''responses''
       (Str (Dumps (JObject
          ((''event'', JString ''new_response'') # body (fst (handle_response sv request b)))))) b
   \<and> dict_get (body (fst (handle_response sv request b))) ''event'' = None"
  by (simp add: handle_response_response handle_response_bus returned_def dict_get_def)

text \<open>
  Claim C10. The response webhook is a function of the form fields \<^verbatim>\<open>CallSid\<close> and
  \<^verbatim>\<open>Transcript\<close>: two requests that agree on them get the same body and publish the same
  message, whatever else the requests hold and whatever state the broadcaster is in.
  This holds for every configuration of the services, the mock ones included.
\<close>

theorem handle_response_deterministic:
  "form_data_of r1 ''CallSid'' = form_data_of r2 ''CallSid'' \<Longrightarrow>
   form_data_of r1 ''Transcript'' = form_data_of r2 ''Transcript'' \<Longrightarrow>
   fst (handle_response sv r1 b1) = fst (handle_response sv r2 b2)
   \<and> (\<exists>m. \<forall>b. snd (handle_response sv r1 b) = try_publish ''responses'' m b
             \<and> snd (handle_response sv r2 b) = try_publish ''responses'' m b)"
  by (auto simp add: handle_response_response handle_response_bus form_get_def)

text \<open>
  The determinism theorem at two requests that differ in a third field, and two
  broadcaster states.
\<close>

theorem handle_response_deterministic_witness:
  "form_data_of (Inr [''CallSid'' \<mapsto> ''c1'', ''Transcript'' \<mapsto> ''help''])  ''CallSid''
     = form_data_of (Inr [''CallSid'' \<mapsto> ''c1'', ''Transcript'' \<mapsto> ''help'', ''From'' \<mapsto> ''x'']) ''CallSid''
   \<and> fst (handle_response (init_services [''torch'', ''hume''])
          (Inr [''CallSid'' \<mapsto> ''c1'', ''Transcript'' \<mapsto> ''help'']) MockBroadcaster)
     = fst (handle_response (init_services [''torch'', ''hume''])
          (Inr [''CallSid'' \<mapsto> ''c1'', ''Transcript'' \<mapsto> ''help'', ''From'' \<mapsto> ''x''])
          (snd (subscribe_enter ''responses'' MockBroadcaster)))"
  using handle_response_deterministic[of "Inr [''CallSid'' \<mapsto> ''c1'', ''Transcript'' \<mapsto> ''help'']"
      "Inr [''CallSid'' \<mapsto> ''c1'', ''Transcript'' \<mapsto> ''help'', ''From'' \<mapsto> ''x'']"
      "init_services [''torch'', ''hume'']" MockBroadcaster
      "snd (subscribe_enter ''responses'' MockBroadcaster)"]
  by (simp add: form_data_of_def)

end
